theory Spec2Isabelle
  imports Complex_Main
begin

section \<open>Python values that cross the messaging channel\<close>

text \<open>
  The handlers of \<^verbatim>\<open>water_dispense_with_rfid.py\<close> and \<^verbatim>\<open>mqtt_dummy_water_dispence.py\<close>
  work on whatever \<^verbatim>\<open>json.loads\<close> returns, so the model keeps the whole value space of a
  parsed JSON text. A dict is the list of its items (keys distinct, as in a Python dict).
  \<^verbatim>\<open>json.loads\<close> turns a number written without fraction and exponent into an \<^verbatim>\<open>int\<close>, of
  any size, and every other number into a \<^verbatim>\<open>float\<close>, so the two are kept apart.

  A \<^verbatim>\<open>float\<close> is an IEEE 754 binary64 value: \<open>Finite r\<close> is the finite double whose exact
  value is the rational \<open>r\<close> (\<open>Finite 0\<close> is \<^verbatim>\<open>0.0\<close>), \<open>NegZero\<close> is \<^verbatim>\<open>-0.0\<close>, and there are the
  two infinities and \<^verbatim>\<open>nan\<close>.
\<close>

datatype double = Finite rat | NegZero | PosInf | NegInf | NaN

datatype json =
    JNull
  | JBool bool
  | JInt int
  | JFloat double
  | JStr string
  | JArr "json list"
  | JObj "(string \<times> json) list"

datatype py_error =
    UnicodeDecodeError | JSONDecodeError | AttributeError | TypeError
  | OverflowError | ZeroDivisionError

text \<open>Truth value of an object in \<^verbatim>\<open>if user_exists:\<close>. Of the floats only the two zeros
  are false.\<close>

fun truthy :: "json \<Rightarrow> bool" where
  "truthy JNull = False"
| "truthy (JBool b) = b"
| "truthy (JInt i) = (i \<noteq> 0)"
| "truthy (JFloat x) = (x \<noteq> Finite 0 \<and> x \<noteq> NegZero)"
| "truthy (JStr s) = (s \<noteq> [])"
| "truthy (JArr xs) = (xs \<noteq> [])"
| "truthy (JObj kvs) = (kvs \<noteq> [])"

text \<open>\<^verbatim>\<open>data.get(key, default)\<close>: only a dict has the method; any other value raises
  \<^verbatim>\<open>AttributeError\<close>.\<close>

fun dict_get :: "json \<Rightarrow> string \<Rightarrow> json \<Rightarrow> py_error + json" where
  "dict_get (JObj kvs) key dflt = Inr (case map_of kvs key of None \<Rightarrow> dflt | Some v \<Rightarrow> v)"
| "dict_get JNull key dflt = Inl AttributeError"
| "dict_get (JBool b) key dflt = Inl AttributeError"
| "dict_get (JInt i) key dflt = Inl AttributeError"
| "dict_get (JFloat x) key dflt = Inl AttributeError"
| "dict_get (JStr s) key dflt = Inl AttributeError"
| "dict_get (JArr xs) key dflt = Inl AttributeError"

section \<open>Float arithmetic\<close>

text \<open>
  Python computes on floats as IEEE 754 prescribes: the result of an operation is the exact
  result rounded to the nearest double, a tie going to the double whose last bit is zero.
  \<open>fl\<close> is that rounding. A double has 53 significant bits, so in the binade of
  \<open>2 ^ e\<close> the doubles are the multiples of \<open>2 ^ (e - 52)\<close>; below \<open>2 ^ (- 1022)\<close> they are
  the multiples of \<open>2 ^ (- 1074)\<close>. The largest double is \<open>2 ^ 1024 - 2 ^ 971\<close>, and what
  lies half a step or more above it rounds to infinity.
\<close>

definition pow2 :: "int \<Rightarrow> rat" where
  "pow2 k = (if 0 \<le> k then 2 ^ nat k else 1 / 2 ^ nat (- k))"

text \<open>\<open>\<lfloor>log\<^sub>2 x\<rfloor>\<close> for \<open>1 \<le> x\<close>, and \<open>- \<lfloor>log\<^sub>2 x\<rfloor>\<close> for \<open>0 < x < 1\<close>.\<close>

function log2_ge1 :: "rat \<Rightarrow> nat" where
  "log2_ge1 x = (if x < 2 then 0 else Suc (log2_ge1 (x / 2)))"
  by pat_completeness auto
termination
proof (relation "measure (\<lambda>x. nat \<lfloor>x\<rfloor>)")
  show "wf (measure (\<lambda>x::rat. nat \<lfloor>x\<rfloor>))" by simp
next
  fix x :: rat
  assume a: "\<not> x < 2"
  then have "x / 2 \<le> x - 1" by simp
  then have "\<lfloor>x / 2\<rfloor> \<le> \<lfloor>x - 1\<rfloor>" by (rule floor_mono)
  also have "\<lfloor>x - 1\<rfloor> = \<lfloor>x\<rfloor> - 1" by simp
  finally have "\<lfloor>x / 2\<rfloor> < \<lfloor>x\<rfloor>" by linarith
  moreover have "0 \<le> \<lfloor>x / 2\<rfloor>" using a by simp
  ultimately have "nat \<lfloor>x / 2\<rfloor> < nat \<lfloor>x\<rfloor>" by linarith
  then show "(x / 2, x) \<in> measure (\<lambda>x. nat \<lfloor>x\<rfloor>)" by (simp only: in_measure)
qed

function log2_lt1 :: "rat \<Rightarrow> nat" where
  "log2_lt1 x = (if x \<le> 0 \<or> 1 \<le> x then 0 else Suc (log2_lt1 (2 * x)))"
  by pat_completeness auto
termination
proof (relation "measure (\<lambda>x. nat \<lfloor>1 / x\<rfloor>)")
  show "wf (measure (\<lambda>x::rat. nat \<lfloor>1 / x\<rfloor>))" by simp
next
  fix x :: rat
  assume a: "\<not> (x \<le> 0 \<or> 1 \<le> x)"
  then have x: "0 < x" "x < 1" by simp_all
  then have y: "1 \<le> 1 / x" by simp
  have h: "1 / (2 * x) = (1 / x) / 2" by simp
  have f1: "1 \<le> \<lfloor>1 / x\<rfloor>" using y by (simp only: le_floor_iff of_int_1)
  have "\<lfloor>(1 / x) / 2\<rfloor> < \<lfloor>1 / x\<rfloor>"
  proof (cases "1 / x < 2")
    case True
    then have "(1 / x) / 2 < of_int 1" by simp
    then have "\<lfloor>(1 / x) / 2\<rfloor> < 1" by (simp only: floor_less_iff)
    with f1 show ?thesis by linarith
  next
    case False
    then have "(1 / x) / 2 \<le> 1 / x - 1" by simp
    then have "\<lfloor>(1 / x) / 2\<rfloor> \<le> \<lfloor>1 / x - 1\<rfloor>" by (rule floor_mono)
    also have "\<lfloor>1 / x - 1\<rfloor> = \<lfloor>1 / x\<rfloor> - 1" by simp
    finally show ?thesis by linarith
  qed
  moreover have "0 \<le> \<lfloor>(1 / x) / 2\<rfloor>" using x by simp
  ultimately have "nat \<lfloor>(1 / x) / 2\<rfloor> < nat \<lfloor>1 / x\<rfloor>" by linarith
  then show "(2 * x, x) \<in> measure (\<lambda>x. nat \<lfloor>1 / x\<rfloor>)" by (simp only: in_measure h)
qed

declare log2_ge1.simps [simp del] log2_lt1.simps [simp del]

definition ilog2 :: "rat \<Rightarrow> int" where
  "ilog2 x = (if 1 \<le> x then int (log2_ge1 x) else - int (log2_lt1 x))"

text \<open>To the nearest integer, a tie going to the even one.\<close>

definition round_half_even :: "rat \<Rightarrow> int" where
  "round_half_even y =
     (let f = \<lfloor>y\<rfloor>;
          d = y - of_int f
      in if d < 1 / 2 then f
         else if 1 / 2 < d then f + 1
         else if even f then f else f + 1)"

definition overflow_threshold :: rat where
  "overflow_threshold = 2 ^ 1024 - 2 ^ 970"

definition fl :: "rat \<Rightarrow> double" where
  "fl r =
     (if r = 0 then Finite 0
      else if overflow_threshold \<le> \<bar>r\<bar> then (if 0 < r then PosInf else NegInf)
      else
        let e = max (ilog2 \<bar>r\<bar>) (- 1022);
            q = pow2 (e - 52);
            m = round_half_even (\<bar>r\<bar> / q);
            v = of_int m * q
        in if v = 0 then (if r < 0 then NegZero else Finite 0)
           else Finite (if r < 0 then - v else v))"

text \<open>An \<^verbatim>\<open>int\<close> that meets a \<^verbatim>\<open>float\<close> in arithmetic is converted to the nearest double;
  one that is too large for a double raises \<^verbatim>\<open>OverflowError\<close>
  (\<^verbatim>\<open>int too large to convert to float\<close>).\<close>

definition to_float :: "int \<Rightarrow> py_error + double" where
  "to_float i = (case fl (of_int i) of
       PosInf \<Rightarrow> Inl OverflowError
     | NegInf \<Rightarrow> Inl OverflowError
     | x \<Rightarrow> Inr x)"

text \<open>The exact value of a finite double.\<close>

fun dval :: "double \<Rightarrow> rat" where
  "dval (Finite r) = r"
| "dval NegZero = 0"
| "dval PosInf = 0"
| "dval NegInf = 0"
| "dval NaN = 0"

text \<open>\<^verbatim>\<open>a - b\<close> on two floats. An exact difference of zero is \<^verbatim>\<open>0.0\<close>, except that
  \<^verbatim>\<open>-0.0 - 0.0\<close> is \<^verbatim>\<open>-0.0\<close>.\<close>

definition fsub :: "double \<Rightarrow> double \<Rightarrow> double" where
  "fsub a b =
     (if a = NaN \<or> b = NaN then NaN
      else if a = PosInf then (if b = PosInf then NaN else PosInf)
      else if a = NegInf then (if b = NegInf then NaN else NegInf)
      else if b = PosInf then NegInf
      else if b = NegInf then PosInf
      else if dval a - dval b = 0 then (if a = NegZero \<and> b = Finite 0 then NegZero else Finite 0)
      else fl (dval a - dval b))"

text \<open>\<^verbatim>\<open>a / b\<close> on two ints: the exact quotient, rounded once.\<close>

definition py_truediv :: "int \<Rightarrow> int \<Rightarrow> py_error + double" where
  "py_truediv a b =
     (if b = 0 then Inl ZeroDivisionError
      else if a = 0 then Inr (if b < 0 then NegZero else Finite 0)
      else case fl (of_int a / of_int b) of
             PosInf \<Rightarrow> Inl OverflowError
           | NegInf \<Rightarrow> Inl OverflowError
           | x \<Rightarrow> Inr x)"

text \<open>\<^verbatim>\<open>round(x, 2)\<close> on a float: the exact value of \<open>x\<close> is rounded to two decimals, a tie
  going to the even neighbour, and the decimal obtained is converted back to the nearest
  double; a result of zero keeps the sign of \<open>x\<close>. The infinities and \<^verbatim>\<open>nan\<close> round to
  themselves. (With two decimals the result is never out of range: a double of \<open>2 ^ 52\<close>
  or more is an integer and rounds to itself.)\<close>

definition round2 :: "double \<Rightarrow> double" where
  "round2 x = (case x of
       Finite r \<Rightarrow>
         (let k = round_half_even (r * 100)
          in if k = 0 then (if r < 0 then NegZero else Finite 0)
             else fl (of_int k / 100))
     | other \<Rightarrow> other)"

text \<open>\<^verbatim>\<open>round(v, 2)\<close> on any object: an \<^verbatim>\<open>int\<close> rounds to itself, a \<^verbatim>\<open>bool\<close> to the
  \<^verbatim>\<open>int\<close> it stands for, and what is not a number raises \<^verbatim>\<open>TypeError\<close>.\<close>

fun py_round2 :: "json \<Rightarrow> py_error + json" where
  "py_round2 (JFloat x) = Inr (JFloat (round2 x))"
| "py_round2 (JInt i) = Inr (JInt i)"
| "py_round2 (JBool b) = Inr (JInt (if b then 1 else 0))"
| "py_round2 JNull = Inl TypeError"
| "py_round2 (JStr s) = Inl TypeError"
| "py_round2 (JArr xs) = Inl TypeError"
| "py_round2 (JObj kvs) = Inl TypeError"

text \<open>The left operand of \<^verbatim>\<open>balance - dispensed_liters\<close>, as the float the subtraction
  works on: a float as it is, an \<^verbatim>\<open>int\<close> (or \<^verbatim>\<open>bool\<close>) converted, and \<^verbatim>\<open>TypeError\<close> for
  an object that is not a number.\<close>

fun to_double :: "json \<Rightarrow> py_error + double" where
  "to_double (JFloat x) = Inr x"
| "to_double (JInt i) = to_float i"
| "to_double (JBool b) = Inr (Finite (if b then 1 else 0))"
| "to_double JNull = Inl TypeError"
| "to_double (JStr s) = Inl TypeError"
| "to_double (JArr xs) = Inl TypeError"
| "to_double (JObj kvs) = Inl TypeError"

definition py_sub :: "json \<Rightarrow> double \<Rightarrow> py_error + double" where
  "py_sub v d = (case to_double v of Inl e \<Rightarrow> Inl e | Inr a \<Rightarrow> Inr (fsub a d))"

text \<open>\<^verbatim>\<open>x < 0\<close> and \<^verbatim>\<open>x >= 0\<close> on a float; both are false of \<^verbatim>\<open>nan\<close>.\<close>

fun dlt0 :: "double \<Rightarrow> bool" where
  "dlt0 (Finite r) = (r < 0)"
| "dlt0 NegZero = False"
| "dlt0 PosInf = False"
| "dlt0 NegInf = True"
| "dlt0 NaN = False"

fun dge0 :: "double \<Rightarrow> bool" where
  "dge0 (Finite r) = (0 \<le> r)"
| "dge0 NegZero = True"
| "dge0 PosInf = True"
| "dge0 NegInf = False"
| "dge0 NaN = False"

text \<open>\<^verbatim>\<open>max(x, 0)\<close> on a float: the \<^verbatim>\<open>int\<close> \<^verbatim>\<open>0\<close> when \<^verbatim>\<open>0 > x\<close>, and \<open>x\<close> itself
  otherwise.\<close>

definition py_max0 :: "double \<Rightarrow> json" where
  "py_max0 x = (if dlt0 x then JInt 0 else JFloat x)"


text \<open>\<^verbatim>\<open>random.randint(a, b)\<close>, driven by a raw draw \<open>r\<close> of the random source.\<close>

definition randint :: "int \<Rightarrow> int \<Rightarrow> nat \<Rightarrow> int" where
  "randint a b r = a + int r mod (b - a + 1)"

text \<open>\<^verbatim>\<open>str(uid)\<close> for an integer.\<close>

function str_nat :: "nat \<Rightarrow> string" where
  "str_nat n =
     (if n < 10 then [''0123456789'' ! n]
      else str_nat (n div 10) @ [''0123456789'' ! (n mod 10)])"
  by pat_completeness auto
termination
  by (relation "measure (\<lambda>n. n)") auto

declare str_nat.simps [simp del]

definition str_int :: "int \<Rightarrow> string" where
  "str_int i = (if i < 0 then CHR ''-'' # str_nat (nat (- i)) else str_nat (nat i))"

section \<open>Effects: log records, publishes, reconnects, sleeps\<close>

datatype level = INFO | WARNING | ERROR

text \<open>A log record is its level, the text of the format string and the values
  interpolated into it. The dash of two messages is written \<^verbatim>\<open>-\<close>.\<close>

datatype event =
    Log level string "json list"
  | Publish string json
  | Reconnect
  | Sleep nat

fun is_publish :: "event \<Rightarrow> bool" where
  "is_publish (Publish t p) = True"
| "is_publish (Log l s vs) = False"
| "is_publish Reconnect = False"
| "is_publish (Sleep n) = False"

fun published_on :: "string \<Rightarrow> event list \<Rightarrow> json list" where
  "published_on t [] = []"
| "published_on t (Publish t' p # es) = (if t' = t then p # published_on t es else published_on t es)"
| "published_on t (Log l s vs # es) = published_on t es"
| "published_on t (Reconnect # es) = published_on t es"
| "published_on t (Sleep n # es) = published_on t es"

text \<open>Whether an event is a log record of a given level.\<close>

fun logged_at :: "level \<Rightarrow> event \<Rightarrow> bool" where
  "logged_at l (Log l' s vs) = (l' = l)"
| "logged_at l (Publish t p) = False"
| "logged_at l Reconnect = False"
| "logged_at l (Sleep n) = False"

definition str_error :: "py_error \<Rightarrow> json" where
  "str_error e = JStr (case e of
       UnicodeDecodeError \<Rightarrow> ''UnicodeDecodeError''
     | JSONDecodeError \<Rightarrow> ''JSONDecodeError''
     | AttributeError \<Rightarrow> ''AttributeError''
     | TypeError \<Rightarrow> ''TypeError''
     | OverflowError \<Rightarrow> ''OverflowError''
     | ZeroDivisionError \<Rightarrow> ''ZeroDivisionError'')"

section \<open>Settings\<close>

text \<open>The topics are built from \<^verbatim>\<open>DEVICE_ID_STR\<close>, which comes from the hardware address;
  it is the parameter \<open>dev\<close> of everything below.\<close>

definition TOPIC_PUB_UID :: "string \<Rightarrow> string" where
  "TOPIC_PUB_UID dev = ''water_atm/'' @ dev @ ''/uid''"

definition TOPIC_PUB_RESULT :: "string \<Rightarrow> string" where
  "TOPIC_PUB_RESULT dev = ''water_atm/'' @ dev @ ''/result''"

definition TOPIC_SUB_AUTH :: "string \<Rightarrow> string" where
  "TOPIC_SUB_AUTH dev = ''water_atm/'' @ dev @ ''/auth''"

definition TOPIC_SUB_CONFIRM :: "string \<Rightarrow> string" where
  "TOPIC_SUB_CONFIRM dev = ''water_atm/'' @ dev @ ''/confirm''"

definition MQTT_ERR_SUCCESS :: int where
  "MQTT_ERR_SUCCESS = 0"

section \<open>Module state and the outside world\<close>

text \<open>The module-level variables. \<^verbatim>\<open>mqtt_dummy_water_dispence.py\<close> has the first two,
  \<^verbatim>\<open>water_dispense_with_rfid.py\<close> adds \<^verbatim>\<open>current_card_uid\<close>.\<close>

record globals =
  authenticated :: bool
  balance :: json

record rfid_globals = globals +
  current_card_uid :: "int option"

text \<open>\<^verbatim>\<open>reader.read()\<close> returns an identifier and a text, or raises.\<close>

datatype read_result = ReadOk int string | ReadRaises

text \<open>What the world supplies to one pass of a metering loop: the outcome of the card read
  and the time it took, the draw behind \<^verbatim>\<open>random.randint(1, 5)\<close>, and by how much
  \<^verbatim>\<open>time.sleep(0.2)\<close> overslept. Times are in milliseconds; the clock is taken to be monotone.\<close>

record tick =
  reading :: read_result
  read_ms :: nat
  draw :: nat
  oversleep_ms :: nat

text \<open>What the client object answers: \<^verbatim>\<open>client.is_connected()\<close> and the \<^verbatim>\<open>rc\<close> of the
  object \<^verbatim>\<open>client.publish\<close> returns.\<close>

record client =
  is_connected :: bool
  publish_rc :: int

text \<open>An incoming message: \<^verbatim>\<open>msg.retain\<close>, \<^verbatim>\<open>msg.topic\<close>, and what
  \<^verbatim>\<open>json.loads(msg.payload.decode())\<close> makes of \<^verbatim>\<open>msg.payload\<close>.\<close>

datatype payload = NotUtf8 | NotJson | Json json

record message =
  retain :: bool
  topic :: string
  payload :: payload

datatype outcome = Returned | Raised py_error

section \<open>\<^verbatim>\<open>start_dispensing\<close> (water\_dispense\_with\_rfid.py)\<close>

definition duration_ms :: nat where
  "duration_ms = 5 * 1000"

text \<open>The \<^verbatim>\<open>while time.time() - start_time < duration\<close> loop. \<open>i\<close> counts the passes,
  \<open>elapsed\<close> is \<^verbatim>\<open>time.time() - start_time\<close> at the loop head.\<close>

function metering :: "int option \<Rightarrow> (nat \<Rightarrow> tick) \<Rightarrow> nat \<Rightarrow> nat \<Rightarrow> int \<Rightarrow> int \<times> event list" where
  "metering initial_uid env i elapsed total_pulses =
     (if elapsed < duration_ms then
        (case reading (env i) of
           ReadRaises \<Rightarrow>
             (total_pulses, [Log WARNING ''Card removed. Stopping water dispensing.'' []])
         | ReadOk uid txt \<Rightarrow>
             if Some uid \<noteq> initial_uid then
               (total_pulses, [Log WARNING ''Card changed. Stopping water dispensing.'' []])
             else
               metering initial_uid env (Suc i)
                 (elapsed + read_ms (env i) + 200 + oversleep_ms (env i))
                 (total_pulses + randint 1 5 (draw (env i))))
      else (total_pulses, []))"
  by pat_completeness auto
termination
  by (relation "measure (\<lambda>(u, env, i, elapsed, t). duration_ms - elapsed)")
     (auto simp: duration_ms_def)

declare metering.simps [simp del]

text \<open>The routine after the loop: the volume, the debit, the clamp, the result message.
  Each of \<^verbatim>\<open>dispensed_ml / 1000\<close>, \<^verbatim>\<open>balance -= dispensed_liters\<close> and
  \<^verbatim>\<open>round(balance, 2)\<close> can raise; what was logged and assigned before stays.\<close>

definition start_dispensing ::
  "string \<Rightarrow> rfid_globals \<Rightarrow> client \<Rightarrow> (nat \<Rightarrow> tick) \<Rightarrow> outcome \<times> rfid_globals \<times> event list" where
  "start_dispensing dev g c env =
     (let initial_uid = current_card_uid g;
          (total_pulses, loop_log) = metering initial_uid env 0 0 0;
          dispensed_ml = total_pulses * 2;
          logged0 = [Log INFO ''Starting water dispensing...'' []] @ loop_log
      in case py_truediv dispensed_ml 1000 of
           Inl e \<Rightarrow> (Raised e, g, logged0)
         | Inr q \<Rightarrow>
             (let dispensed_liters = round2 q;
                  logged = logged0 @
                    [Log INFO ''Water dispensed: {dispensed_liters} L'' [JFloat dispensed_liters]]
              in case py_sub (balance g) dispensed_liters of
                   Inl e \<Rightarrow> (Raised e, g, logged)
                 | Inr b \<Rightarrow>
                     (let g' = g\<lparr>balance := py_max0 b\<rparr>
                      in case py_round2 (balance g') of
                           Inl e \<Rightarrow> (Raised e, g', logged)
                         | Inr updated_balance \<Rightarrow>
                             (let result_msg = JObj [(''dispensed'', JFloat dispensed_liters),
                                                     (''updated_balance'', updated_balance)]
                              in (Returned, g',
                                  logged @
                                  (if is_connected c then
                                     [Publish (TOPIC_PUB_RESULT dev) result_msg,
                                      Log INFO ''Sent result to server: {result_msg}'' [result_msg]]
                                   else
                                     [Log ERROR ''MQTT disconnected - skipping result publish'' []]))))))"

section \<open>\<^verbatim>\<open>dispense_water\<close> (mqtt\_dummy\_water\_dispence.py)\<close>

text \<open>The same loop without the card check: each pass draws pulses and sleeps.\<close>

function dummy_metering :: "(nat \<Rightarrow> tick) \<Rightarrow> nat \<Rightarrow> nat \<Rightarrow> int \<Rightarrow> int" where
  "dummy_metering env i elapsed total_pulses =
     (if elapsed < duration_ms then
        dummy_metering env (Suc i) (elapsed + 200 + oversleep_ms (env i))
          (total_pulses + randint 1 5 (draw (env i)))
      else total_pulses)"
  by pat_completeness auto
termination
  by (relation "measure (\<lambda>(env, i, elapsed, t). duration_ms - elapsed)")
     (auto simp: duration_ms_def)

declare dummy_metering.simps [simp del]

definition dispense_water ::
  "string \<Rightarrow> globals \<Rightarrow> client \<Rightarrow> (nat \<Rightarrow> tick) \<Rightarrow> outcome \<times> globals \<times> event list" where
  "dispense_water dev g c env =
     (let total_pulses = dummy_metering env 0 0 0;
          water_dispensed_ml = total_pulses * 2;
          logged0 = [Log INFO ''Starting water dispensing...'' []]
      in case py_truediv water_dispensed_ml 1000 of
           Inl e \<Rightarrow> (Raised e, g, logged0)
         | Inr q \<Rightarrow>
             (let water_dispensed_liters = round2 q;
                  logged = logged0 @
                    [Log INFO ''Water dispensed: {water_dispensed_liters} L''
                       [JFloat water_dispensed_liters]]
              in case py_sub (balance g) water_dispensed_liters of
                   Inl e \<Rightarrow> (Raised e, g, logged)
                 | Inr b \<Rightarrow>
                     (let g' = g\<lparr>balance := py_max0 b\<rparr>
                      in case py_round2 (balance g') of
                           Inl e \<Rightarrow> (Raised e, g', logged)
                         | Inr updated_balance \<Rightarrow>
                             (let message = JObj [(''dispensed'', JFloat water_dispensed_liters),
                                                  (''updated_balance'', updated_balance)]
                              in (Returned, g',
                                  logged @
                                  (if is_connected c then
                                     [Publish (TOPIC_PUB_RESULT dev) message,
                                      if publish_rc c = MQTT_ERR_SUCCESS
                                      then Log INFO ''Sent result to server: {message}'' [message]
                                      else Log WARNING ''Publish failed'' []]
                                   else
                                     [Log ERROR ''MQTT disconnected - skipping publish'' []]))))))"

section \<open>\<^verbatim>\<open>on_message\<close>\<close>

definition received :: "message \<Rightarrow> event" where
  "received msg = Log INFO ''Received message on {msg.topic}: {payload}'' [JStr (topic msg)]"

text \<open>The handler's \<^verbatim>\<open>except Exception as e\<close>.\<close>

definition caught :: "py_error \<Rightarrow> event" where
  "caught e = Log ERROR ''Error while processing incoming message: {e}'' [str_error e]"

text \<open>water\_dispense\_with\_rfid.py. An exception raised inside the \<^verbatim>\<open>try\<close> leaves the
  globals as they were when it was raised.\<close>

definition on_message ::
  "string \<Rightarrow> rfid_globals \<Rightarrow> message \<Rightarrow> client \<Rightarrow> (nat \<Rightarrow> tick) \<Rightarrow> rfid_globals \<times> event list" where
  "on_message dev g msg c env =
     (if retain msg then (g, [Log WARNING ''Retained message received. Ignoring.'' []])
      else case payload msg of
        NotUtf8 \<Rightarrow> (g, [caught UnicodeDecodeError])
      | NotJson \<Rightarrow> (g, [received msg, caught JSONDecodeError])
      | Json data \<Rightarrow>
          if topic msg = TOPIC_SUB_AUTH dev then
            (case dict_get data ''exists'' (JBool False) of
               Inl e \<Rightarrow> (g, [received msg, caught e])
             | Inr user_exists \<Rightarrow>
                 (case dict_get data ''balance'' (JInt 0) of
                    Inl e \<Rightarrow> (g, [received msg, caught e])
                  | Inr bal \<Rightarrow>
                      (let g1 = g\<lparr>balance := bal\<rparr> in
                       if truthy user_exists then
                         (let g2 = g1\<lparr>authenticated := True\<rparr>;
                              info = Log INFO ''User authenticated. Balance: {balance} L'' [bal];
                              (out, g3, evs) = start_dispensing dev g2 c env
                          in case out of
                               Raised e \<Rightarrow> (g3, [received msg, info] @ evs @ [caught e])
                             | Returned \<Rightarrow>
                                 (g3\<lparr>authenticated := False\<rparr>, [received msg, info] @ evs))
                       else
                         (g1, [received msg,
                               Log WARNING ''Authentication failed. User does not exist.'' []]))))
          else if topic msg = TOPIC_SUB_CONFIRM dev then
            (case dict_get data ''updated'' (JBool False) of
               Inl e \<Rightarrow> (g, [received msg, caught e])
             | Inr server_confirm \<Rightarrow>
                 (g, [received msg,
                      if truthy server_confirm
                      then Log INFO ''Server confirmed balance update.'' []
                      else Log WARNING ''Server failed to confirm balance update.'' []]))
          else (g, [received msg]))"

text \<open>mqtt\_dummy\_water\_dispence.py: the same handler, calling \<^verbatim>\<open>dispense_water\<close>.\<close>

definition dummy_on_message ::
  "string \<Rightarrow> globals \<Rightarrow> message \<Rightarrow> client \<Rightarrow> (nat \<Rightarrow> tick) \<Rightarrow> globals \<times> event list" where
  "dummy_on_message dev g msg c env =
     (if retain msg then (g, [Log WARNING ''Retained message received. Ignoring.'' []])
      else case payload msg of
        NotUtf8 \<Rightarrow> (g, [caught UnicodeDecodeError])
      | NotJson \<Rightarrow> (g, [received msg, caught JSONDecodeError])
      | Json data \<Rightarrow>
          if topic msg = TOPIC_SUB_AUTH dev then
            (case dict_get data ''exists'' (JBool False) of
               Inl e \<Rightarrow> (g, [received msg, caught e])
             | Inr user_exists \<Rightarrow>
                 (case dict_get data ''balance'' (JInt 0) of
                    Inl e \<Rightarrow> (g, [received msg, caught e])
                  | Inr bal \<Rightarrow>
                      (let g1 = g\<lparr>balance := bal\<rparr> in
                       if truthy user_exists then
                         (let g2 = g1\<lparr>authenticated := True\<rparr>;
                              info = Log INFO ''User authenticated. Balance: {balance} L'' [bal];
                              (out, g3, evs) = dispense_water dev g2 c env
                          in case out of
                               Raised e \<Rightarrow> (g3, [received msg, info] @ evs @ [caught e])
                             | Returned \<Rightarrow>
                                 (g3\<lparr>authenticated := False\<rparr>, [received msg, info] @ evs))
                       else
                         (g1, [received msg,
                               Log WARNING ''Authentication failed. User does not exist.'' []]))))
          else if topic msg = TOPIC_SUB_CONFIRM dev then
            (case dict_get data ''updated'' (JBool False) of
               Inl e \<Rightarrow> (g, [received msg, caught e])
             | Inr server_confirm \<Rightarrow>
                 (g, [received msg,
                      if truthy server_confirm
                      then Log INFO ''Server confirmed balance update.'' []
                      else Log WARNING ''Server failed to confirm balance update.'' []]))
          else (g, [received msg]))"

section \<open>\<^verbatim>\<open>on_disconnect\<close>\<close>

text \<open>The \<^verbatim>\<open>while True\<close> loop both modules share: \<open>attempts k\<close> tells whether the
  \<open>k\<close>-th call of \<^verbatim>\<open>client.reconnect()\<close> returns (otherwise it raises). The loop may
  never end, so its result is optional: \<open>None\<close> is a run that does not return.\<close>

partial_function (option) reconnect_loop :: "(nat \<Rightarrow> bool) \<Rightarrow> nat \<Rightarrow> event list \<Rightarrow> event list option" where
  "reconnect_loop attempts k logged =
     (if attempts k then
        Some (logged @ [Log INFO ''Attempting to reconnect...'' [], Reconnect,
                     Log INFO ''Reconnected successfully'' []])
      else
        reconnect_loop attempts (Suc k)
          (logged @ [Log INFO ''Attempting to reconnect...'' [], Reconnect,
                  Log ERROR ''Reconnect failed: {e}'' [], Sleep 5]))"

text \<open>
  The handlers are called by the client object, with positional arguments. An argument is
  some object, or a reason code with its numeric value. A call binds the arguments to the
  parameters of the \<^verbatim>\<open>def\<close>; with fewer arguments than parameters without default, or more
  arguments than parameters, it raises \<^verbatim>\<open>TypeError\<close> before the body runs.
\<close>

datatype arg = Obj | Code int

text \<open>water\_dispense\_with\_rfid.py:
  \<^verbatim>\<open>def on_disconnect(client, userdata, rc, properties=None)\<close>, three or four arguments.
  The body never looks at \<^verbatim>\<open>rc\<close>.\<close>

definition on_disconnect :: "arg list \<Rightarrow> (nat \<Rightarrow> bool) \<Rightarrow> (outcome \<times> event list) option" where
  "on_disconnect args attempts =
     (if length args = 3 \<or> length args = 4 then
        map_option (Pair Returned)
          (reconnect_loop attempts 0 [Log WARNING ''Disconnected from MQTT broker'' []])
      else Some (Raised TypeError, []))"

text \<open>mqtt\_dummy\_water\_dispence.py:
  \<^verbatim>\<open>def on_disconnect(client, userdata, disconnect_flags, reason_code, properties=None)\<close>,
  four or five arguments; \<^verbatim>\<open>reason_code\<close> is the fourth.\<close>

definition dummy_on_disconnect :: "arg list \<Rightarrow> (nat \<Rightarrow> bool) \<Rightarrow> (outcome \<times> event list) option" where
  "dummy_on_disconnect args attempts =
     (if length args = 4 \<or> length args = 5 then
        (if args ! 3 = Code MQTT_ERR_SUCCESS then
           Some (Returned, [Log INFO ''Disconnected cleanly from MQTT broker'' []])
         else
           map_option (Pair Returned)
             (reconnect_loop attempts 0
                [Log WARNING ''Disconnected unexpectedly from MQTT broker'' []]))
      else Some (Raised TypeError, []))"

text \<open>Both \<^verbatim>\<open>main\<close> functions build the client with
  \<^verbatim>\<open>callback_api_version=CallbackAPIVersion.VERSION2\<close>. Such a client calls the handler as
  \<^verbatim>\<open>on_disconnect(client, userdata, disconnect_flags, reason_code, properties)\<close>: five
  positional arguments, the reason code the fourth (the parameters the handler of
  mqtt\_dummy\_water\_dispence.py has).\<close>

definition version2_call :: "int \<Rightarrow> arg list" where
  "version2_call reason_code = [Obj, Obj, Obj, Code reason_code, Obj]"

section \<open>The polling loop of \<^verbatim>\<open>main\<close> (water\_dispense\_with\_rfid.py)\<close>

text \<open>One pass of \<^verbatim>\<open>while True\<close>: the outcome of \<^verbatim>\<open>reader.read()\<close> and the client's answers
  are the inputs.\<close>

definition main_step :: "string \<Rightarrow> rfid_globals \<Rightarrow> read_result \<times> client \<Rightarrow> rfid_globals \<times> event list" where
  "main_step dev g inp =
     (case fst inp of
        ReadRaises \<Rightarrow> (g\<lparr>current_card_uid := None\<rparr>, [])
      | ReadOk uid txt \<Rightarrow>
          if Some uid \<noteq> current_card_uid g then
            (let g' = g\<lparr>current_card_uid := Some uid\<rparr>;
                 message = JObj [(''uid'', JStr (str_int uid))];
                 info = Log INFO ''Publishing UID: {uid} to topic: {TOPIC_PUB_UID}'' [JInt uid]
             in if is_connected (snd inp) then
                  (g', [info, Publish (TOPIC_PUB_UID dev) message,
                        if publish_rc (snd inp) = MQTT_ERR_SUCCESS
                        then Log INFO ''UID published successfully'' []
                        else Log WARNING ''Failed to publish UID. Status: {result.rc}''
                               [JInt (publish_rc (snd inp))]])
                else
                  (g', [info, Log ERROR ''MQTT disconnected - skipping publish'' []]))
          else (g, []))"

text \<open>The passes made before the loop is interrupted, in order.\<close>

fun main_loop :: "string \<Rightarrow> rfid_globals \<Rightarrow> (read_result \<times> client) list \<Rightarrow> rfid_globals \<times> event list" where
  "main_loop dev g [] = (g, [])"
| "main_loop dev g (inp # inps) =
     (let (g1, evs1) = main_step dev g inp;
          (g2, evs2) = main_loop dev g1 inps
      in (g2, evs1 @ evs2))"

section \<open>Quantities the properties are stated with\<close>

text \<open>Whether a read shows the card a run is bound to; the clock at the head of pass \<open>n\<close>
  of a metering loop whose earlier passes all ran to their end; the pulses drawn in those
  passes; the warning the loop logs when it stops on a read.\<close>

fun card_present :: "int option \<Rightarrow> read_result \<Rightarrow> bool" where
  "card_present initial_uid (ReadOk uid t) = (Some uid = initial_uid)"
| "card_present initial_uid ReadRaises = False"

fun clock :: "(nat \<Rightarrow> tick) \<Rightarrow> nat \<Rightarrow> nat" where
  "clock env 0 = 0"
| "clock env (Suc i) = clock env i + read_ms (env i) + 200 + oversleep_ms (env i)"

fun pulses_upto :: "(nat \<Rightarrow> tick) \<Rightarrow> nat \<Rightarrow> int" where
  "pulses_upto env 0 = 0"
| "pulses_upto env (Suc i) = pulses_upto env i + randint 1 5 (draw (env i))"

definition stop_warning :: "read_result \<Rightarrow> event" where
  "stop_warning r = (case r of
       ReadRaises \<Rightarrow> Log WARNING ''Card removed. Stopping water dispensing.'' []
     | ReadOk uid t \<Rightarrow> Log WARNING ''Card changed. Stopping water dispensing.'' [])"

text \<open>The volume \<^verbatim>\<open>round(p * 2 / 1000, 2)\<close> of \<open>p\<close> pulses, where the division does not
  overflow.\<close>

definition liters :: "int \<Rightarrow> double" where
  "liters p = round2 (fl (of_int (p * 2) / 1000))"

text \<open>A payload that cannot be read as a JSON object, and the values the handler's
  \<^verbatim>\<open>data.get\<close> calls fall back on.\<close>

fun malformed :: "payload \<Rightarrow> bool" where
  "malformed NotUtf8 = True"
| "malformed NotJson = True"
| "malformed (Json (JObj kvs)) = False"
| "malformed (Json v) = True"

definition field_defaults :: "(string \<times> json) list" where
  "field_defaults = [(''exists'', JBool False), (''balance'', JInt 0), (''updated'', JBool False)]"

text \<open>Sample inputs.\<close>

definition always_up :: "nat \<Rightarrow> bool" where
  "always_up k = True"

definition never_up :: "nat \<Rightarrow> bool" where
  "never_up k = False"

definition third_up :: "nat \<Rightarrow> bool" where
  "third_up k = (k = 2)"

definition sample_dev :: string where
  "sample_dev = ''atm-0242ac110002''"

definition g_seven :: rfid_globals where
  "g_seven = \<lparr>authenticated = False, balance = JInt 7, current_card_uid = Some 5\<rparr>"

definition h_seven :: globals where
  "h_seven = \<lparr>authenticated = False, balance = JInt 7\<rparr>"

definition client_up :: client where
  "client_up = \<lparr>is_connected = True, publish_rc = 0\<rparr>"

definition client_down :: client where
  "client_down = \<lparr>is_connected = False, publish_rc = 0\<rparr>"

definition env_card_gone :: "nat \<Rightarrow> tick" where
  "env_card_gone i = \<lparr>reading = ReadRaises, read_ms = 0, draw = 0, oversleep_ms = 0\<rparr>"

definition env_card_5_slow :: "nat \<Rightarrow> tick" where
  "env_card_5_slow i = \<lparr>reading = ReadOk 5 [], read_ms = 100, draw = 3, oversleep_ms = 2300\<rparr>"

definition env_card_swapped :: "nat \<Rightarrow> tick" where
  "env_card_swapped i =
     \<lparr>reading = (if i < 3 then ReadOk 5 [] else ReadOk 9 []), read_ms = 0, draw = 4, oversleep_ms = 0\<rparr>"

text \<open>An \<^verbatim>\<open>int\<close> too large for a float, which \<^verbatim>\<open>json.loads\<close> reads from a text of 310
  digits.\<close>

definition huge :: int where
  "huge = 10 ^ 309"

definition msg_denial :: message where
  "msg_denial = \<lparr>retain = False, topic = TOPIC_SUB_AUTH sample_dev,
                  payload = Json (JObj [(''exists'', JBool False)])\<rparr>"

definition msg_grant_10 :: message where
  "msg_grant_10 = \<lparr>retain = False, topic = TOPIC_SUB_AUTH sample_dev,
                    payload = Json (JObj [(''exists'', JBool True), (''balance'', JInt 10)])\<rparr>"

definition msg_no_balance :: message where
  "msg_no_balance = \<lparr>retain = False, topic = TOPIC_SUB_AUTH sample_dev,
                      payload = Json (JObj [(''exists'', JBool True)])\<rparr>"

definition msg_null_balance :: message where
  "msg_null_balance = \<lparr>retain = False, topic = TOPIC_SUB_AUTH sample_dev,
                        payload = Json (JObj [(''exists'', JBool True), (''balance'', JNull)])\<rparr>"

definition msg_text_balance :: message where
  "msg_text_balance = \<lparr>retain = False, topic = TOPIC_SUB_AUTH sample_dev,
                        payload = Json (JObj [(''exists'', JBool True), (''balance'', JStr ''ten'')])\<rparr>"

definition msg_retained :: message where
  "msg_retained = \<lparr>retain = True, topic = TOPIC_SUB_AUTH sample_dev,
                    payload = Json (JObj [(''exists'', JBool True), (''balance'', JInt 10)])\<rparr>"

definition msg_garbled :: message where
  "msg_garbled = \<lparr>retain = False, topic = TOPIC_SUB_AUTH sample_dev, payload = NotJson\<rparr>"

definition msg_list_elsewhere :: message where
  "msg_list_elsewhere = \<lparr>retain = False, topic = ''water_atm/other'', payload = Json (JArr [])\<rparr>"

section \<open>Facts about the rounding\<close>

lemma pow2_pos: "0 < pow2 k"
  by (simp add: pow2_def)

lemma round_half_even_nonneg: "0 \<le> y \<Longrightarrow> 0 \<le> round_half_even y"
  unfolding round_half_even_def Let_def by simp

lemma threshold_large: "2 ^ 64 < overflow_threshold"
proof -
  have "(2::rat) ^ 970 \<le> 2 ^ 1023" by (rule power_increasing) simp_all
  moreover have "(2::rat) ^ 1024 = 2 * 2 ^ 1023" by simp
  ultimately have "(2::rat) ^ 1023 \<le> overflow_threshold" by (simp add: overflow_threshold_def)
  moreover have "(2::rat) ^ 64 < 2 ^ 1023" by (rule power_strict_increasing) simp_all
  ultimately show ?thesis by linarith
qed

lemma fl_zero: "fl 0 = Finite 0"
  by (simp add: fl_def)

lemma fl_small:
  assumes "r \<noteq> 0" and "\<bar>r\<bar> \<le> 2 ^ 64"
  shows "fl r =
       (let e = max (ilog2 \<bar>r\<bar>) (- 1022);
            q = pow2 (e - 52);
            m = round_half_even (\<bar>r\<bar> / q);
            v = of_int m * q
        in if v = 0 then (if r < 0 then NegZero else Finite 0)
           else Finite (if r < 0 then - v else v))"
proof -
  from assms(2) threshold_large have "\<not> overflow_threshold \<le> \<bar>r\<bar>" by linarith
  with assms(1) show ?thesis by (simp add: fl_def)
qed

lemma fl_finite_nonneg:
  assumes "0 \<le> r" and "r < overflow_threshold"
  shows "\<exists>v. fl r = Finite v \<and> 0 \<le> v"
proof (cases "r = 0")
  case True
  then show ?thesis by (simp add: fl_def)
next
  case False
  with assms have a: "\<bar>r\<bar> = r" "\<not> overflow_threshold \<le> \<bar>r\<bar>" "\<not> r < 0" by simp_all
  let ?q = "pow2 (max (ilog2 r) (- 1022) - 52)"
  have "0 \<le> r / ?q" using assms(1) pow2_pos[of "max (ilog2 r) (- 1022) - 52"] by simp
  then have "0 \<le> round_half_even (r / ?q)" by (rule round_half_even_nonneg)
  then have "0 \<le> of_int (round_half_even (r / ?q)) * ?q"
    using pow2_pos[of "max (ilog2 r) (- 1022) - 52"] by simp
  with False a show ?thesis by (simp add: fl_def Let_def)
qed




lemma dge0_not_dlt0: "dge0 x \<Longrightarrow> \<not> dlt0 x"
  by (cases x) simp_all


lemma py_round2_py_max0:
  "py_round2 (py_max0 x) = Inr (if dlt0 x then JInt 0 else JFloat (round2 x))"
  by (simp add: py_max0_def)

lemma floor_rat_numeral: "\<lfloor>(numeral a :: rat) / numeral b\<rfloor> = numeral a div numeral b"
  using floor_divide_of_int_eq[of "numeral a" "numeral b", where ?'a = rat] by simp

lemmas fl_eval = fl_small ilog2_def log2_ge1.simps log2_lt1.simps pow2_def round_half_even_def
  Let_def floor_rat_numeral

lemma py_truediv_small:
  assumes "0 \<le> a" and "a \<le> 2 ^ 64" and "1 \<le> b"
  shows "py_truediv a b = Inr (fl (of_int a / of_int b))"
proof (cases "a = 0")
  case True
  with assms(3) show ?thesis by (simp add: py_truediv_def fl_def)
next
  case False
  have "(of_int a :: rat) / of_int b \<le> of_int a"
    using assms(1,3) by (simp add: divide_le_eq mult_le_cancel_left1)
  also have "\<dots> \<le> 2 ^ 64" using assms(2) by (metis of_int_le_iff of_int_numeral of_int_power)
  finally have "(of_int a :: rat) / of_int b < overflow_threshold" using threshold_large by linarith
  moreover have "(0::rat) \<le> of_int a / of_int b" using assms(1,3) by simp
  ultimately obtain v where "fl (of_int a / of_int b) = Finite v"
    using fl_finite_nonneg by blast
  with False assms(3) show ?thesis by (simp add: py_truediv_def)
qed

lemma randint_1_5: "1 \<le> randint 1 5 r \<and> randint 1 5 r \<le> 5"
  by (simp add: randint_def)

section \<open>The metering loop\<close>

lemma clock_mono: "i \<le> j \<Longrightarrow> clock env i \<le> clock env j"
  by (induction j) (auto simp: le_Suc_eq)

lemma clock_lower: "200 * n \<le> clock env n"
  by (induction n) auto

lemma metering_step:
  assumes "e < duration_ms" and "card_present u (reading (env i))"
  shows "metering u env i e t =
         metering u env (Suc i) (e + read_ms (env i) + 200 + oversleep_ms (env i))
           (t + randint 1 5 (draw (env i)))"
  using assms by (subst metering.simps) (auto split: read_result.splits)

lemma metering_stop:
  assumes "e < duration_ms" and "\<not> card_present u (reading (env i))"
  shows "metering u env i e t = (t, [stop_warning (reading (env i))])"
  using assms by (subst metering.simps) (auto simp: stop_warning_def split: read_result.splits)

lemma metering_timeup:
  assumes "\<not> e < duration_ms"
  shows "metering u env i e t = (t, [])"
  using assms by (subst metering.simps) simp

lemma metering_prefix:
  assumes "\<forall>j<n. card_present u (reading (env j)) \<and> clock env j < duration_ms"
  shows "metering u env 0 0 0 = metering u env n (clock env n) (pulses_upto env n)"
  using assms
proof (induction n)
  case 0
  show ?case by simp
next
  case (Suc n)
  then have IH: "metering u env 0 0 0 = metering u env n (clock env n) (pulses_upto env n)"
    and c: "clock env n < duration_ms" and r: "card_present u (reading (env n))"
    by simp_all
  show ?case
    unfolding IH using metering_step[of "clock env n" u env n "pulses_upto env n"] c r by simp
qed

lemma metering_total_mono: "t \<le> fst (metering u env i e t)"
proof (induction u env i e t rule: metering.induct)
  case (1 u env i e t)
  show ?case
  proof (cases "e < duration_ms")
    case False
    then show ?thesis by (simp add: metering_timeup)
  next
    case True
    show ?thesis
    proof (cases "card_present u (reading (env i))")
      case False
      with True show ?thesis by (simp add: metering_stop)
    next
      case present: True
      then obtain uid tx where r: "reading (env i) = ReadOk uid tx" and same: "\<not> Some uid \<noteq> u"
        by (cases "reading (env i)") auto
      have "t + randint 1 5 (draw (env i))
            \<le> fst (metering u env (Suc i) (e + read_ms (env i) + 200 + oversleep_ms (env i))
                    (t + randint 1 5 (draw (env i))))"
        by (rule "1.IH"[OF True r same])
      moreover have "0 \<le> randint 1 5 (draw (env i))"
        using randint_1_5[of "draw (env i)"] by simp
      ultimately show ?thesis
        using metering_step[of e u env i t] True present by simp
    qed
  qed
qed

lemma metering_pulses_nonneg: "0 \<le> fst (metering u env 0 0 0)"
  by (rule metering_total_mono)

text \<open>Every pass takes 200 ms or more and draws 5 pulses or fewer, so a run of five seconds
  accumulates 125 pulses at most.\<close>

lemma passes_left:
  assumes "e < duration_ms"
  shows "Suc ((duration_ms + 199 - (e + r + 200 + s)) div 200) \<le> (duration_ms + 199 - e) div 200"
proof -
  have "(duration_ms + 199 - (e + r + 200 + s)) div 200 \<le> (duration_ms + 199 - (e + 200)) div 200"
    by (rule div_le_mono) simp
  moreover have "duration_ms + 199 - e = (duration_ms + 199 - (e + 200)) + 200"
    using assms by (simp add: duration_ms_def)
  then have "(duration_ms + 199 - e) div 200 = Suc ((duration_ms + 199 - (e + 200)) div 200)"
    by simp
  ultimately show ?thesis by simp
qed

lemma metering_total_bound:
  "fst (metering u env i e t) \<le> t + 5 * int ((duration_ms + 199 - e) div 200)"
proof (induction u env i e t rule: metering.induct)
  case (1 u env i e t)
  show ?case
  proof (cases "e < duration_ms")
    case False
    then show ?thesis by (simp add: metering_timeup)
  next
    case True
    show ?thesis
    proof (cases "card_present u (reading (env i))")
      case False
      with True show ?thesis by (simp add: metering_stop)
    next
      case present: True
      then obtain uid tx where r: "reading (env i) = ReadOk uid tx" and same: "\<not> Some uid \<noteq> u"
        by (cases "reading (env i)") auto
      let ?e' = "e + read_ms (env i) + 200 + oversleep_ms (env i)"
      have "fst (metering u env (Suc i) ?e' (t + randint 1 5 (draw (env i))))
            \<le> t + randint 1 5 (draw (env i)) + 5 * int ((duration_ms + 199 - ?e') div 200)"
        by (rule "1.IH"[OF True r same])
      moreover have "randint 1 5 (draw (env i)) \<le> 5"
        using randint_1_5[of "draw (env i)"] by simp
      moreover have "int (Suc ((duration_ms + 199 - ?e') div 200)) \<le> int ((duration_ms + 199 - e) div 200)"
        using passes_left[OF True, of "read_ms (env i)" "oversleep_ms (env i)"] by (simp only: of_nat_le_iff)
      ultimately show ?thesis
        using metering_step[of e u env i t] True present by simp
    qed
  qed
qed

lemma metering_pulses_le: "fst (metering u env 0 0 0) \<le> 125"
  using metering_total_bound[of u env 0 0 0] by (simp add: duration_ms_def)

lemma dummy_metering_mono: "t \<le> dummy_metering env i e t"
proof (induction env i e t rule: dummy_metering.induct)
  case (1 env i e t)
  show ?case
  proof (cases "e < duration_ms")
    case False
    then show ?thesis by (subst dummy_metering.simps) simp
  next
    case True
    have "t + randint 1 5 (draw (env i))
          \<le> dummy_metering env (Suc i) (e + 200 + oversleep_ms (env i)) (t + randint 1 5 (draw (env i)))"
      by (rule "1.IH"[OF True])
    moreover have "0 \<le> randint 1 5 (draw (env i))"
      using randint_1_5[of "draw (env i)"] by simp
    ultimately show ?thesis
      using True by (subst dummy_metering.simps) simp
  qed
qed

lemma dummy_metering_bound:
  "dummy_metering env i e t \<le> t + 5 * int ((duration_ms + 199 - e) div 200)"
proof (induction env i e t rule: dummy_metering.induct)
  case (1 env i e t)
  show ?case
  proof (cases "e < duration_ms")
    case False
    then show ?thesis by (subst dummy_metering.simps) simp
  next
    case True
    let ?e' = "e + 200 + oversleep_ms (env i)"
    have "dummy_metering env (Suc i) ?e' (t + randint 1 5 (draw (env i)))
          \<le> t + randint 1 5 (draw (env i)) + 5 * int ((duration_ms + 199 - ?e') div 200)"
      by (rule "1.IH"[OF True])
    moreover have "randint 1 5 (draw (env i)) \<le> 5"
      using randint_1_5[of "draw (env i)"] by simp
    moreover have "int (Suc ((duration_ms + 199 - ?e') div 200)) \<le> int ((duration_ms + 199 - e) div 200)"
      using passes_left[OF True, of 0 "oversleep_ms (env i)"] by (simp only: of_nat_le_iff add_0_right)
    ultimately show ?thesis
      using True by (subst dummy_metering.simps) simp
  qed
qed

lemma dummy_metering_range: "0 \<le> dummy_metering env 0 0 0 \<and> dummy_metering env 0 0 0 \<le> 125"
  using dummy_metering_bound[of env 0 0 0] dummy_metering_mono[of 0 env 0 0]
  by (simp add: duration_ms_def)

lemma loop_log_no_publish: "filter is_publish (snd (metering u env i e t)) = []"
proof (induction u env i e t rule: metering.induct)
  case (1 u env i e t)
  show ?case
  proof (cases "e < duration_ms")
    case False
    then show ?thesis by (simp add: metering_timeup)
  next
    case True
    show ?thesis
    proof (cases "card_present u (reading (env i))")
      case False
      with True show ?thesis by (simp add: metering_stop stop_warning_def split: read_result.splits)
    next
      case present: True
      then obtain uid tx where r: "reading (env i) = ReadOk uid tx" and same: "\<not> Some uid \<noteq> u"
        by (cases "reading (env i)") auto
      show ?thesis
        using "1.IH"[OF True r same] metering_step[of e u env i t] True present by simp
    qed
  qed
qed



lemma topics_differ: "TOPIC_SUB_AUTH dev \<noteq> TOPIC_SUB_CONFIRM dev"
  by (simp add: TOPIC_SUB_AUTH_def TOPIC_SUB_CONFIRM_def)

section \<open>The dispensing routines after their loops\<close>

text \<open>The division and the two roundings never raise: the pulses of a run are between 0
  and 125. What is left is the debit, which raises when the balance is not a number or is an
  \<^verbatim>\<open>int\<close> too large for a float.\<close>

lemma start_dispensing_unfold:
  "start_dispensing dev g c env =
     (let p = fst (metering (current_card_uid g) env 0 0 0);
          d = liters p;
          logged = [Log INFO ''Starting water dispensing...'' []] @
                   snd (metering (current_card_uid g) env 0 0 0) @
                   [Log INFO ''Water dispensed: {dispensed_liters} L'' [JFloat d]]
      in case to_double (balance g) of
           Inl e \<Rightarrow> (Raised e, g, logged)
         | Inr b \<Rightarrow>
             (let result_msg = JObj [(''dispensed'', JFloat d),
                                     (''updated_balance'',
                                      if dlt0 (fsub b d) then JInt 0 else JFloat (round2 (fsub b d)))]
              in (Returned, g\<lparr>balance := py_max0 (fsub b d)\<rparr>,
                  logged @
                  (if is_connected c then
                     [Publish (TOPIC_PUB_RESULT dev) result_msg,
                      Log INFO ''Sent result to server: {result_msg}'' [result_msg]]
                   else [Log ERROR ''MQTT disconnected - skipping result publish'' []]))))"
proof -
  obtain p lg where m: "metering (current_card_uid g) env 0 0 0 = (p, lg)"
    by (cases "metering (current_card_uid g) env 0 0 0")
  have "0 \<le> p * 2" "p * 2 \<le> 2 ^ 64"
    using metering_pulses_nonneg[of "current_card_uid g" env]
      metering_pulses_le[of "current_card_uid g" env] by (simp_all add: m)
  then have q: "py_truediv (p * 2) 1000 = Inr (fl (of_int (p * 2) / 1000))"
    using py_truediv_small[of "p * 2" 1000] by simp
  show ?thesis
    unfolding start_dispensing_def
    by (simp add: m q py_sub_def py_round2_py_max0 liters_def Let_def split: sum.splits)
qed

lemma dispense_water_unfold:
  "dispense_water dev h c env =
     (let p = dummy_metering env 0 0 0;
          d = liters p;
          logged = [Log INFO ''Starting water dispensing...'' [],
                    Log INFO ''Water dispensed: {water_dispensed_liters} L'' [JFloat d]]
      in case to_double (balance h) of
           Inl e \<Rightarrow> (Raised e, h, logged)
         | Inr b \<Rightarrow>
             (let message = JObj [(''dispensed'', JFloat d),
                                  (''updated_balance'',
                                   if dlt0 (fsub b d) then JInt 0 else JFloat (round2 (fsub b d)))]
              in (Returned, h\<lparr>balance := py_max0 (fsub b d)\<rparr>,
                  logged @
                  (if is_connected c then
                     [Publish (TOPIC_PUB_RESULT dev) message,
                      if publish_rc c = MQTT_ERR_SUCCESS
                      then Log INFO ''Sent result to server: {message}'' [message]
                      else Log WARNING ''Publish failed'' []]
                   else [Log ERROR ''MQTT disconnected - skipping publish'' []]))))"
proof -
  let ?p = "dummy_metering env 0 0 0"
  have "0 \<le> ?p * 2" "?p * 2 \<le> 2 ^ 64"
    using dummy_metering_range[of env] by simp_all
  then have q: "py_truediv (?p * 2) 1000 = Inr (fl (of_int (?p * 2) / 1000))"
    using py_truediv_small[of "?p * 2" 1000] by simp
  show ?thesis
    unfolding dispense_water_def
    by (simp add: q py_sub_def py_round2_py_max0 liters_def Let_def split: sum.splits)
qed

lemma start_dispensing_outcome:
  "fst (start_dispensing dev g c env) =
     (case to_double (balance g) of Inl e \<Rightarrow> Raised e | Inr b \<Rightarrow> Returned)"
  by (simp add: start_dispensing_unfold Let_def split: sum.splits)

lemma start_dispensing_client:
  "fst (start_dispensing dev g c env) = fst (start_dispensing dev g c' env) \<and>
   fst (snd (start_dispensing dev g c env)) = fst (snd (start_dispensing dev g c' env))"
  by (simp add: start_dispensing_unfold Let_def split: sum.splits)

lemma start_dispensing_disconnected:
  assumes "\<not> is_connected c"
  shows "filter is_publish (snd (snd (start_dispensing dev g c env))) = []"
  using assms loop_log_no_publish[of "current_card_uid g" env 0 0 0]
  by (simp add: start_dispensing_unfold Let_def split: sum.splits)

lemma dispense_water_client:
  "fst (dispense_water dev h c env) = fst (dispense_water dev h c' env) \<and>
   fst (snd (dispense_water dev h c env)) = fst (snd (dispense_water dev h c' env))"
  by (simp add: dispense_water_unfold Let_def split: sum.splits)

lemma dispense_water_disconnected:
  assumes "\<not> is_connected c"
  shows "filter is_publish (snd (snd (dispense_water dev h c env))) = []"
  using assms by (simp add: dispense_water_unfold Let_def split: sum.splits)

text \<open>A debit that goes through: the balance is a float or converts to one.\<close>

lemma debit_applied:
  assumes "to_double (balance g) = Inr b" and "to_double (balance h) = Inr b'"
  shows "fst (start_dispensing dev g c env) = Returned \<and>
         balance (fst (snd (start_dispensing dev g c env))) =
           py_max0 (fsub b (liters (fst (metering (current_card_uid g) env 0 0 0)))) \<and>
         fst (dispense_water dev h c env) = Returned \<and>
         balance (fst (snd (dispense_water dev h c env))) =
           py_max0 (fsub b' (liters (dummy_metering env 0 0 0)))"
  using assms by (simp add: start_dispensing_unfold dispense_water_unfold Let_def)

text \<open>Losing the card ends the loop in the pass that sees it, with the pulses of the passes
  before it; no pulse is drawn and nothing is slept in that pass, and nothing is raised.\<close>

lemma metering_stops_on_card_loss:
  assumes "\<forall>j<n. card_present u (reading (env j))"
      and "\<not> card_present u (reading (env n))"
      and "clock env n < duration_ms"
  shows "metering u env 0 0 0 = (pulses_upto env n, [stop_warning (reading (env n))])"
proof -
  have pre: "\<forall>j<n. card_present u (reading (env j)) \<and> clock env j < duration_ms"
  proof (intro allI impI conjI)
    fix j assume "j < n"
    with assms(1) show "card_present u (reading (env j))" by simp
    from \<open>j < n\<close> clock_mono[of j n env] assms(3) show "clock env j < duration_ms" by simp
  qed
  show ?thesis
    unfolding metering_prefix[OF pre]
    using metering_stop[of "clock env n" u env n "pulses_upto env n"] assms(2,3)
    by simp
qed

text \<open>What \<^verbatim>\<open>authenticated\<close> is after a granting message: false when the debit went
  through, true when it raised.\<close>

lemma on_message_authenticated_after_grant:
  assumes "\<not> retain msg"
      and "topic msg = TOPIC_SUB_AUTH dev"
      and "payload msg = Json data"
      and "dict_get data ''exists'' (JBool False) = Inr user_exists"
      and "truthy user_exists"
      and "dict_get data ''balance'' (JInt 0) = Inr bal"
  shows "authenticated (fst (on_message dev g msg c env)) =
           (case to_double bal of Inl e \<Rightarrow> True | Inr b \<Rightarrow> False)"
proof -
  let ?g2 = "g\<lparr>balance := bal, authenticated := True\<rparr>"
  obtain out g3 evs where sd: "start_dispensing dev ?g2 c env = (out, g3, evs)"
    by (cases "start_dispensing dev ?g2 c env")
  show ?thesis
  proof (cases "to_double bal")
    case (Inl e)
    then have "fst (start_dispensing dev ?g2 c env) = Raised e"
      and "fst (snd (start_dispensing dev ?g2 c env)) = ?g2"
      by (simp_all add: start_dispensing_unfold Let_def)
    with sd have "out = Raised e" and "g3 = ?g2" by simp_all
    with sd assms Inl show ?thesis by (simp add: on_message_def Let_def)
  next
    case (Inr b)
    then have "out = Returned"
      using sd start_dispensing_outcome[of dev ?g2 c env] by simp
    with sd assms Inr show ?thesis by (simp add: on_message_def Let_def)
  qed
qed

section \<open>The reconnect loop\<close>

lemma reconnect_loop_succeeds:
  "attempts (k + n) \<Longrightarrow> \<forall>j<n. \<not> attempts (k + j) \<Longrightarrow>
   reconnect_loop attempts k lg =
     Some (lg @ concat (replicate n [Log INFO ''Attempting to reconnect...'' [], Reconnect,
                                      Log ERROR ''Reconnect failed: {e}'' [], Sleep 5])
              @ [Log INFO ''Attempting to reconnect...'' [], Reconnect,
                 Log INFO ''Reconnected successfully'' []])"
proof (induction n arbitrary: k lg)
  case 0
  then show ?case by (subst reconnect_loop.simps) simp
next
  case (Suc n)
  from Suc.prems have nk: "\<not> attempts k" by (metis add.right_neutral zero_less_Suc)
  from Suc.prems have a: "attempts (Suc k + n)" by simp
  from Suc.prems have b: "\<forall>j<n. \<not> attempts (Suc k + j)"
    by (metis Suc_less_eq add_Suc_shift)
  show ?case
    by (subst reconnect_loop.simps) (simp add: nk Suc.IH[OF a b])
qed

lemma reconnect_loop_returns_only_after_success:
  assumes "reconnect_loop attempts k lg = Some evs"
  shows "\<exists>j. attempts j"
proof (rule reconnect_loop.raw_induct[where P = "\<lambda>a k lg evs. \<exists>j. a j", OF _ assms])
  fix f :: "(nat \<Rightarrow> bool) \<Rightarrow> nat \<Rightarrow> event list \<Rightarrow> event list option"
  fix a k lg evs
  assume IH: "\<And>a k lg evs. f a k lg = Some evs \<Longrightarrow> \<exists>j. a j"
  assume step: "(if a k
      then Some (lg @ [Log INFO ''Attempting to reconnect...'' [], Reconnect,
                       Log INFO ''Reconnected successfully'' []])
      else f a (Suc k)
             (lg @ [Log INFO ''Attempting to reconnect...'' [], Reconnect,
                    Log ERROR ''Reconnect failed: {e}'' [], Sleep 5])) = Some evs"
  show "\<exists>j. a j"
  proof (cases "a k")
    case True
    then show ?thesis by blast
  next
    case False
    with step IH show ?thesis by simp
  qed
qed

lemma reconnect_loop_never:
  assumes "\<forall>j. \<not> attempts j"
  shows "reconnect_loop attempts k lg = None"
proof (cases "reconnect_loop attempts k lg")
  case None
  then show ?thesis .
next
  case (Some evs)
  from reconnect_loop_returns_only_after_success[OF Some] assms show ?thesis by blast
qed

text \<open>The handler of water\_dispense\_with\_rfid.py refuses the call of a
  \<^verbatim>\<open>VERSION2\<close> client, whatever the reason code: nothing is logged and no reconnect is
  attempted. Called with three arguments, as an older client would, it runs the loop
  whatever the code, the clean one included.\<close>

lemma on_disconnect_version2: "on_disconnect (version2_call reason_code) attempts = Some (Raised TypeError, [])"
  by (simp add: on_disconnect_def version2_call_def)

lemma on_disconnect_three_arguments:
  "attempts n \<Longrightarrow> \<forall>j<n. \<not> attempts j \<Longrightarrow>
   on_disconnect [Obj, Obj, Code rc] attempts =
     Some (Returned,
           [Log WARNING ''Disconnected from MQTT broker'' []] @
           concat (replicate n [Log INFO ''Attempting to reconnect...'' [], Reconnect,
                                Log ERROR ''Reconnect failed: {e}'' [], Sleep 5]) @
           [Log INFO ''Attempting to reconnect...'' [], Reconnect,
            Log INFO ''Reconnected successfully'' []])"
  using reconnect_loop_succeeds[of attempts 0 n] by (simp add: on_disconnect_def)

text \<open>The handler of mqtt\_dummy\_water\_dispence.py, called by a \<^verbatim>\<open>VERSION2\<close> client:
  a clean disconnect returns at once; any other retries, sleeping 5 seconds after each
  failure, returns after the first success, and never returns when no attempt succeeds.\<close>

lemma dummy_on_disconnect_clean:
  "dummy_on_disconnect (version2_call MQTT_ERR_SUCCESS) attempts =
     Some (Returned, [Log INFO ''Disconnected cleanly from MQTT broker'' []])"
  by (simp add: dummy_on_disconnect_def version2_call_def)

lemma dummy_on_disconnect_unexpected:
  assumes "reason_code \<noteq> MQTT_ERR_SUCCESS"
  shows "attempts n \<Longrightarrow> \<forall>j<n. \<not> attempts j \<Longrightarrow>
         dummy_on_disconnect (version2_call reason_code) attempts =
           Some (Returned,
                 [Log WARNING ''Disconnected unexpectedly from MQTT broker'' []] @
                 concat (replicate n [Log INFO ''Attempting to reconnect...'' [], Reconnect,
                                      Log ERROR ''Reconnect failed: {e}'' [], Sleep 5]) @
                 [Log INFO ''Attempting to reconnect...'' [], Reconnect,
                  Log INFO ''Reconnected successfully'' []])"
    and "\<forall>j. \<not> attempts j \<Longrightarrow> dummy_on_disconnect (version2_call reason_code) attempts = None"
  using assms reconnect_loop_succeeds[of attempts 0 n] reconnect_loop_never[of attempts 0]
  by (simp_all add: dummy_on_disconnect_def version2_call_def)

section \<open>Facts about the handlers\<close>

lemma dict_get_defaults:
  "dict_get (JObj (kvs @ field_defaults)) ''exists'' (JBool False) = dict_get (JObj kvs) ''exists'' (JBool False)"
  "dict_get (JObj (kvs @ field_defaults)) ''balance'' (JInt 0) = dict_get (JObj kvs) ''balance'' (JInt 0)"
  "dict_get (JObj (kvs @ field_defaults)) ''updated'' (JBool False) = dict_get (JObj kvs) ''updated'' (JBool False)"
  by (simp_all add: field_defaults_def map_add_def split: option.splits)

lemma dict_get_not_object:
  "malformed (Json v) \<Longrightarrow> dict_get v key dflt = Inl AttributeError"
  by (cases v) simp_all

section \<open>Sample runs\<close>

lemma metering_swapped:
  "metering (Some 5) env_card_swapped 0 0 0 =
     (15, [Log WARNING ''Card changed. Stopping water dispensing.'' []])"
  by (simp add: metering.simps env_card_swapped_def duration_ms_def randint_def)

lemma metering_slow: "metering (Some 5) env_card_5_slow 0 0 0 = (8, [])"
  by (simp add: metering.simps env_card_5_slow_def duration_ms_def randint_def)

lemma metering_gone:
  "metering u env_card_gone 0 0 0 =
     (0, [Log WARNING ''Card removed. Stopping water dispensing.'' []])"
  by (simp add: metering.simps env_card_gone_def duration_ms_def)

lemma dummy_metering_slow: "dummy_metering env_card_5_slow 0 0 0 = 8"
  by (simp add: dummy_metering.simps env_card_5_slow_def duration_ms_def randint_def)

lemma liters_0: "liters 0 = Finite 0"
  by (simp add: liters_def round2_def fl_zero round_half_even_def)

lemma liters_8: "liters 8 = Finite (5764607523034235 / 288230376151711744)"
  by (simp add: liters_def round2_def fl_eval)

lemma liters_15: "liters 15 = Finite (1080863910568919 / 36028797018963968)"
  by (simp add: liters_def round2_def fl_eval)


lemma to_float_huge: "to_float huge = Inl OverflowError"
  by (simp add: huge_def to_float_def fl_def overflow_threshold_def)

lemma uid_g_seven: "current_card_uid g_seven = Some 5"
  by (simp add: g_seven_def)




lemma zero_minus_zero: "fsub (Finite 0) (Finite 0) = Finite 0"
  by (simp add: fsub_def)

lemma round2_zero: "round2 (Finite 0) = Finite 0"
  by (simp add: round2_def round_half_even_def)

lemma swapped_present: "\<forall>j<3. card_present (current_card_uid g_seven) (reading (env_card_swapped j))"
  by (simp add: g_seven_def env_card_swapped_def)

lemma swapped_absent: "\<not> card_present (current_card_uid g_seven) (reading (env_card_swapped 3))"
  by (simp add: g_seven_def env_card_swapped_def)

lemma swapped_clock: "clock env_card_swapped 3 = 600"
  by (simp add: eval_nat_numeral env_card_swapped_def)

lemma swapped_pulses: "pulses_upto env_card_swapped 3 = 15"
  by (simp add: eval_nat_numeral env_card_swapped_def randint_def)

lemma start_dispensing_zero_gone:
  "start_dispensing sample_dev \<lparr>authenticated = True, balance = JInt 0, current_card_uid = Some 5\<rparr>
     client_up env_card_gone =
   (Returned, \<lparr>authenticated = True, balance = JFloat (Finite 0), current_card_uid = Some 5\<rparr>,
    [Log INFO ''Starting water dispensing...'' [],
     Log WARNING ''Card removed. Stopping water dispensing.'' [],
     Log INFO ''Water dispensed: {dispensed_liters} L'' [JFloat (Finite 0)],
     Publish (TOPIC_PUB_RESULT sample_dev)
       (JObj [(''dispensed'', JFloat (Finite 0)), (''updated_balance'', JFloat (Finite 0))]),
     Log INFO ''Sent result to server: {result_msg}''
       [JObj [(''dispensed'', JFloat (Finite 0)), (''updated_balance'', JFloat (Finite 0))]]])"
  by (simp add: start_dispensing_unfold metering_gone liters_0 to_float_def fl_zero zero_minus_zero
        round2_zero py_max0_def client_up_def Let_def)


lemma str_int_5: "str_int 5 = ''5''"
  by (simp add: str_int_def str_nat.simps)


section \<open>Retained messages\<close>

text \<open>
  Claim C7. A message marked retained, on whatever topic and with whatever payload, makes
  \<^verbatim>\<open>on_message\<close> return at once: the globals are the ones it was called with, and the only
  effect is the warning it logs. No card is read, nothing is published.
\<close>

theorem on_message_retained_ignored:
  assumes "retain msg"
  shows "on_message dev g msg c env = (g, [Log WARNING ''Retained message received. Ignoring.'' []])"
  using assms by (simp add: on_message_def)

theorem on_message_retained_ignored_witness:
  "retain msg_retained \<and>
   on_message sample_dev g_seven msg_retained client_up env_card_5_slow =
     (g_seven, [Log WARNING ''Retained message received. Ignoring.'' []])"
  using on_message_retained_ignored[of msg_retained sample_dev g_seven client_up env_card_5_slow]
  by (simp add: msg_retained_def)

section \<open>The debit\<close>




section \<open>The volume conversion\<close>



section \<open>Losing the card during a run\<close>

text \<open>
  Claim C4. Losing the card ends the loop in the pass that sees it (\<open>metering_stops_on_card_loss\<close>),
  and the read that fails is caught. But the routine then goes on to the debit, and
  \<^verbatim>\<open>balance -= dispensed_liters\<close> is not guarded: the balance is whatever
  \<^verbatim>\<open>data.get("balance", 0)\<close> returned. After the message
  \<^verbatim>\<open>{"exists": true, "balance": null}\<close>, a run that meters 15 pulses and then sees another
  card raises \<^verbatim>\<open>TypeError\<close>: it has logged the volume, and it builds and publishes no
  result.
\<close>

theorem card_loss_then_debit_raises:
  "start_dispensing sample_dev (g_seven\<lparr>balance := JNull, authenticated := True\<rparr>)
     client_up env_card_swapped =
   (Raised TypeError, g_seven\<lparr>balance := JNull, authenticated := True\<rparr>,
    [Log INFO ''Starting water dispensing...'' [],
     Log WARNING ''Card changed. Stopping water dispensing.'' [],
     Log INFO ''Water dispensed: {dispensed_liters} L''
       [JFloat (Finite (1080863910568919 / 36028797018963968))]])"
  by (simp add: start_dispensing_unfold g_seven_def metering_swapped liters_15 Let_def)

section \<open>The authenticated flag\<close>

text \<open>
  Claim C5. \<^verbatim>\<open>on_message\<close> sets \<^verbatim>\<open>authenticated = False\<close> on the line after the call of
  \<^verbatim>\<open>start_dispensing\<close>, outside any \<^verbatim>\<open>finally\<close>: when the call raises, the handler's
  \<^verbatim>\<open>except\<close> logs the exception and the reset is skipped
  (\<open>on_message_authenticated_after_grant\<close>). After the message
  \<^verbatim>\<open>{"exists": true, "balance": null}\<close> the loop runs its five seconds and meters 8 pulses,
  the debit raises \<^verbatim>\<open>TypeError\<close>, and the handler returns with \<^verbatim>\<open>authenticated\<close> true, in
  both modules.
\<close>

theorem authenticated_left_true:
  "on_message sample_dev g_seven msg_null_balance client_up env_card_5_slow =
     (g_seven\<lparr>balance := JNull, authenticated := True\<rparr>,
      [received msg_null_balance,
       Log INFO ''User authenticated. Balance: {balance} L'' [JNull],
       Log INFO ''Starting water dispensing...'' [],
       Log INFO ''Water dispensed: {dispensed_liters} L''
         [JFloat (Finite (5764607523034235 / 288230376151711744))],
       caught TypeError]) \<and>
   dummy_on_message sample_dev h_seven msg_null_balance client_up env_card_5_slow =
     (h_seven\<lparr>balance := JNull, authenticated := True\<rparr>,
      [received msg_null_balance,
       Log INFO ''User authenticated. Balance: {balance} L'' [JNull],
       Log INFO ''Starting water dispensing...'' [],
       Log INFO ''Water dispensed: {water_dispensed_liters} L''
         [JFloat (Finite (5764607523034235 / 288230376151711744))],
       caught TypeError])"
  by (simp add: on_message_def dummy_on_message_def msg_null_balance_def start_dispensing_unfold
        dispense_water_unfold g_seven_def h_seven_def metering_slow dummy_metering_slow liters_8 Let_def)

section \<open>A run that ends while the client is disconnected\<close>

text \<open>
  Claim C10. The debit comes before the test of \<^verbatim>\<open>client.is_connected()\<close> and does not
  depend on it (\<open>start_dispensing_client\<close>, \<open>dispense_water_client\<close>), and a disconnected
  client gets no publish (\<open>start_dispensing_disconnected\<close>, \<open>dispense_water_disconnected\<close>).
  But the debit is not always applied: with a balance of \<open>huge = 10\<^sup>3\<^sup>0\<^sup>9\<close>, an \<^verbatim>\<open>int\<close> too large
  for a float, a run that metered 8 pulses raises \<^verbatim>\<open>OverflowError\<close> at
  \<^verbatim>\<open>balance -= dispensed_liters\<close> and leaves the balance as it was, in both modules.
\<close>

theorem debit_skipped_while_disconnected:
  "start_dispensing sample_dev (g_seven\<lparr>balance := JInt huge\<rparr>) client_down env_card_5_slow =
     (Raised OverflowError, g_seven\<lparr>balance := JInt huge\<rparr>,
      [Log INFO ''Starting water dispensing...'' [],
       Log INFO ''Water dispensed: {dispensed_liters} L''
         [JFloat (Finite (5764607523034235 / 288230376151711744))]]) \<and>
   dispense_water sample_dev (h_seven\<lparr>balance := JInt huge\<rparr>) client_down env_card_5_slow =
     (Raised OverflowError, h_seven\<lparr>balance := JInt huge\<rparr>,
      [Log INFO ''Starting water dispensing...'' [],
       Log INFO ''Water dispensed: {water_dispensed_liters} L''
         [JFloat (Finite (5764607523034235 / 288230376151711744))]])"
  by (simp add: start_dispensing_unfold dispense_water_unfold uid_g_seven metering_slow
        dummy_metering_slow liters_8 to_float_huge Let_def)

section \<open>Denial\<close>

text \<open>
  Claim C1 says that a denial leaves \<^verbatim>\<open>balance\<close> as it was. Both handlers assign
  \<^verbatim>\<open>balance = data.get("balance", 0)\<close> before they look at \<^verbatim>\<open>user_exists\<close>:
  with a balance of 7 and the message \<^verbatim>\<open>{"exists": false}\<close> the balance becomes 0.
\<close>

theorem denial_overwrites_balance:
  "balance (fst (on_message sample_dev g_seven msg_denial client_up env_card_gone)) \<noteq> balance g_seven \<and>
   balance (fst (dummy_on_message sample_dev h_seven msg_denial client_up env_card_gone)) \<noteq> balance h_seven"
  by (simp add: on_message_def dummy_on_message_def msg_denial_def g_seven_def h_seven_def)

text \<open>
  Claim C1, amended. For an authorization message whose \<^verbatim>\<open>exists\<close> is false (or absent, or
  any falsy value), the handler starts no metering run and publishes nothing: its result does
  not depend on the reader or the client, it logs the denial, and \<^verbatim>\<open>authenticated\<close> and
  \<^verbatim>\<open>current_card_uid\<close> keep their values. \<^verbatim>\<open>balance\<close> is overwritten with the
  \<^verbatim>\<open>balance\<close> field of the message, 0 when the field is absent (unless the message is
  retained, which changes nothing).
\<close>

theorem on_message_denial:
  assumes "topic msg = TOPIC_SUB_AUTH dev"
      and "payload msg = Json (JObj kvs)"
      and "\<not> truthy (case map_of kvs ''exists'' of None \<Rightarrow> JBool False | Some v \<Rightarrow> v)"
  shows "authenticated (fst (on_message dev g msg c env)) = authenticated g \<and>
         current_card_uid (fst (on_message dev g msg c env)) = current_card_uid g \<and>
         balance (fst (on_message dev g msg c env)) =
           (if retain msg then balance g
            else (case map_of kvs ''balance'' of None \<Rightarrow> JInt 0 | Some v \<Rightarrow> v)) \<and>
         snd (on_message dev g msg c env) =
           (if retain msg then [Log WARNING ''Retained message received. Ignoring.'' []]
            else [received msg, Log WARNING ''Authentication failed. User does not exist.'' []]) \<and>
         on_message dev g msg c env = on_message dev g msg c' env' \<and>
         authenticated (fst (dummy_on_message dev h msg c env)) = authenticated h \<and>
         balance (fst (dummy_on_message dev h msg c env)) =
           (if retain msg then balance h
            else (case map_of kvs ''balance'' of None \<Rightarrow> JInt 0 | Some v \<Rightarrow> v)) \<and>
         snd (dummy_on_message dev h msg c env) =
           (if retain msg then [Log WARNING ''Retained message received. Ignoring.'' []]
            else [received msg, Log WARNING ''Authentication failed. User does not exist.'' []]) \<and>
         dummy_on_message dev h msg c env = dummy_on_message dev h msg c' env'"
  using assms
  by (simp add: on_message_def dummy_on_message_def Let_def)

theorem on_message_denial_witness:
  "topic msg_denial = TOPIC_SUB_AUTH sample_dev \<and>
   payload msg_denial = Json (JObj [(''exists'', JBool False)]) \<and>
   \<not> truthy (case map_of [(''exists'', JBool False)] ''exists'' of None \<Rightarrow> JBool False | Some v \<Rightarrow> v) \<and>
   fst (on_message sample_dev g_seven msg_denial client_up env_card_5_slow) = g_seven\<lparr>balance := JInt 0\<rparr> \<and>
   snd (on_message sample_dev g_seven msg_denial client_up env_card_5_slow) =
     [received msg_denial, Log WARNING ''Authentication failed. User does not exist.'' []]"
  using on_message_denial[of msg_denial sample_dev "[(''exists'', JBool False)]"
      g_seven client_up env_card_5_slow client_up env_card_5_slow h_seven]
  by (simp add: msg_denial_def g_seven_def)

section \<open>Malformed payloads and missing fields\<close>

text \<open>
  Claim C6 says that a message with a malformed payload or a missing field is dropped with a
  logged warning and leaves the state as it was. Four messages show what the handler does
  instead. The message \<^verbatim>\<open>{"exists": true}\<close>, with no balance, is processed in full: every
  field is read with \<^verbatim>\<open>data.get(key, default)\<close>, so the balance becomes 0, a dispensing cycle
  runs and a result is published. A payload that is not JSON is logged by the handler's
  \<^verbatim>\<open>except\<close> with \<^verbatim>\<open>logger.error\<close>: no warning is logged. A payload that is a JSON list,
  on a topic other than the two the handler knows, is logged as received and nothing more:
  no \<^verbatim>\<open>get\<close> is called on it. And the message \<^verbatim>\<open>{"exists": true, "balance": "ten"}\<close>,
  whose balance is not a number, changes the state: the balance is the text and
  \<^verbatim>\<open>authenticated\<close> stays true.
\<close>

theorem protocol_faults_not_as_claimed:
  "fst (on_message sample_dev g_seven msg_no_balance client_up env_card_gone) \<noteq> g_seven \<and>
   published_on (TOPIC_PUB_RESULT sample_dev)
     (snd (on_message sample_dev g_seven msg_no_balance client_up env_card_gone)) \<noteq> [] \<and>
   snd (on_message sample_dev g_seven msg_garbled client_up env_card_gone) =
     [received msg_garbled, caught JSONDecodeError] \<and>
   filter (logged_at WARNING) (snd (on_message sample_dev g_seven msg_garbled client_up env_card_gone)) = [] \<and>
   snd (on_message sample_dev g_seven msg_list_elsewhere client_up env_card_gone) =
     [received msg_list_elsewhere] \<and>
   malformed (payload msg_list_elsewhere) \<and>
   fst (on_message sample_dev g_seven msg_text_balance client_up env_card_gone) =
     g_seven\<lparr>balance := JStr ''ten'', authenticated := True\<rparr>"
proof -
  have a: "fst (on_message sample_dev g_seven msg_no_balance client_up env_card_gone) \<noteq> g_seven \<and>
           published_on (TOPIC_PUB_RESULT sample_dev)
             (snd (on_message sample_dev g_seven msg_no_balance client_up env_card_gone)) \<noteq> []"
    by (simp add: on_message_def msg_no_balance_def Let_def g_seven_def start_dispensing_zero_gone
          received_def)
  have b: "snd (on_message sample_dev g_seven msg_garbled client_up env_card_gone) =
             [received msg_garbled, caught JSONDecodeError]"
    by (simp add: on_message_def msg_garbled_def)
  have c: "snd (on_message sample_dev g_seven msg_list_elsewhere client_up env_card_gone) =
             [received msg_list_elsewhere] \<and> malformed (payload msg_list_elsewhere)"
    by (simp add: on_message_def msg_list_elsewhere_def sample_dev_def TOPIC_SUB_AUTH_def
          TOPIC_SUB_CONFIRM_def)
  have d: "fst (on_message sample_dev g_seven msg_text_balance client_up env_card_gone) =
             g_seven\<lparr>balance := JStr ''ten'', authenticated := True\<rparr>"
    by (simp add: on_message_def msg_text_balance_def Let_def start_dispensing_unfold)
  show ?thesis
    using a c d by (simp add: b received_def caught_def)
qed

text \<open>
  Claim C6, amended. A message whose payload cannot be decoded, cannot be parsed, or parses
  to something other than a JSON object leaves the globals unchanged, starts no run and
  publishes nothing, and the handler returns. What it logs depends on where it stops: a
  retained message is ignored with the retained-message warning before its payload is looked
  at; otherwise an undecodable payload is logged as an error, an unparsable payload is logged
  as received and then as an error, a payload that is not an object is logged as received and
  then as an error on the auth and confirm topics, and only as received on any other topic.
  A message that is an object lacking a field is not dropped: it is processed exactly as the
  same message with the defaults \<^verbatim>\<open>exists = False\<close>, \<^verbatim>\<open>balance = 0\<close>, \<^verbatim>\<open>updated = False\<close>
  filled in.
\<close>

theorem on_message_malformed_dropped:
  "(malformed (payload msg) \<longrightarrow>
      fst (on_message dev g msg c env) = g \<and>
      filter is_publish (snd (on_message dev g msg c env)) = [] \<and>
      snd (on_message dev g msg c env) =
        (if retain msg then [Log WARNING ''Retained message received. Ignoring.'' []]
         else if payload msg = NotUtf8 then [caught UnicodeDecodeError]
         else if payload msg = NotJson then [received msg, caught JSONDecodeError]
         else if topic msg = TOPIC_SUB_AUTH dev \<or> topic msg = TOPIC_SUB_CONFIRM dev
              then [received msg, caught AttributeError]
              else [received msg])) \<and>
   (payload msg = Json (JObj kvs) \<longrightarrow>
      on_message dev g msg c env =
      on_message dev g (msg\<lparr>payload := Json (JObj (kvs @ field_defaults))\<rparr>) c env)"
proof (intro conjI impI)
  assume m: "malformed (payload msg)"
  show "fst (on_message dev g msg c env) = g"
  proof (cases "payload msg")
    case (Json v)
    with m have "\<And>k d. dict_get v k d = Inl AttributeError" by (simp add: dict_get_not_object)
    with Json show ?thesis by (simp add: on_message_def)
  qed (simp_all add: on_message_def)
  show "filter is_publish (snd (on_message dev g msg c env)) = []"
  proof (cases "payload msg")
    case (Json v)
    with m have "\<And>k d. dict_get v k d = Inl AttributeError" by (simp add: dict_get_not_object)
    with Json show ?thesis by (simp add: on_message_def received_def caught_def)
  qed (simp_all add: on_message_def received_def caught_def)
  show "snd (on_message dev g msg c env) =
        (if retain msg then [Log WARNING ''Retained message received. Ignoring.'' []]
         else if payload msg = NotUtf8 then [caught UnicodeDecodeError]
         else if payload msg = NotJson then [received msg, caught JSONDecodeError]
         else if topic msg = TOPIC_SUB_AUTH dev \<or> topic msg = TOPIC_SUB_CONFIRM dev
              then [received msg, caught AttributeError]
              else [received msg])"
  proof (cases "payload msg")
    case (Json v)
    with m have "\<And>k d. dict_get v k d = Inl AttributeError" by (simp add: dict_get_not_object)
    with Json show ?thesis by (simp add: on_message_def)
  qed (simp_all add: on_message_def)
next
  assume p: "payload msg = Json (JObj kvs)"
  show "on_message dev g msg c env =
        on_message dev g (msg\<lparr>payload := Json (JObj (kvs @ field_defaults))\<rparr>) c env"
  proof -
    let ?m = "msg\<lparr>payload := Json (JObj (kvs @ field_defaults))\<rparr>"
    have r: "received ?m = received msg" by (simp add: received_def)
    have f: "retain ?m = retain msg" "topic ?m = topic msg"
      "payload ?m = Json (JObj (kvs @ field_defaults))" by simp_all
    show ?thesis
      unfolding on_message_def p r f payload.simps dict_get_defaults
      by (rule refl)
  qed
qed

theorem on_message_malformed_dropped_witness:
  "malformed (payload msg_garbled) \<and>
   on_message sample_dev g_seven msg_garbled client_up env_card_5_slow =
     (g_seven, [received msg_garbled, caught JSONDecodeError]) \<and>
   payload msg_no_balance = Json (JObj [(''exists'', JBool True)]) \<and>
   on_message sample_dev g_seven msg_no_balance client_up env_card_gone =
   on_message sample_dev g_seven
     (msg_no_balance\<lparr>payload := Json (JObj ([(''exists'', JBool True)] @ field_defaults))\<rparr>)
     client_up env_card_gone"
  using on_message_malformed_dropped[of msg_garbled sample_dev g_seven client_up env_card_5_slow "[]"]
        on_message_malformed_dropped[of msg_no_balance sample_dev g_seven client_up env_card_gone
          "[(''exists'', JBool True)]"]
  by (simp add: msg_garbled_def msg_no_balance_def prod_eq_iff)

section \<open>The polling loop\<close>

text \<open>
  Claim C9 says that after a read error the next presentation of a card triggers a new
  authorization request. \<^verbatim>\<open>main\<close> publishes only \<^verbatim>\<open>if client.is_connected()\<close>, and it
  has already recorded the identifier by then: a card presented while the client is
  disconnected is never announced, not even when the connection is back and the card is
  still there.
\<close>

theorem no_request_while_disconnected:
  "filter is_publish
     (snd (main_loop sample_dev g_seven
             [(ReadRaises, client_up), (ReadOk 5 [], client_down), (ReadOk 5 [], client_up)])) = [] \<and>
   current_card_uid
     (fst (main_loop sample_dev g_seven
             [(ReadRaises, client_up), (ReadOk 5 [], client_down), (ReadOk 5 [], client_up)])) = Some 5"
  by (simp add: main_step_def g_seven_def client_up_def client_down_def Let_def)

text \<open>
  Claim C9, amended. A read that returns the identifier already recorded changes nothing and
  publishes nothing. A read error resets \<^verbatim>\<open>current_card_uid\<close> to \<^verbatim>\<open>None\<close>, so the next card
  read, the same card included, is recorded as a new one; it is announced on the uid topic
  when the client is connected, and not announced when it is not.
\<close>

theorem main_loop_reports_changes:
  "(current_card_uid g = Some uid \<longrightarrow> main_step dev g (ReadOk uid tx, c) = (g, [])) \<and>
   main_step dev g (ReadRaises, c) = (g\<lparr>current_card_uid := None\<rparr>, []) \<and>
   current_card_uid (fst (main_loop dev g [(ReadRaises, c), (ReadOk uid tx, c')])) = Some uid \<and>
   (is_connected c' \<longrightarrow>
      published_on (TOPIC_PUB_UID dev)
        (snd (main_loop dev g [(ReadRaises, c), (ReadOk uid tx, c')])) =
        [JObj [(''uid'', JStr (str_int uid))]]) \<and>
   (\<not> is_connected c' \<longrightarrow>
      filter is_publish (snd (main_loop dev g [(ReadRaises, c), (ReadOk uid tx, c')])) = [])"
  by (simp add: main_step_def Let_def)

theorem main_loop_reports_changes_witness:
  "current_card_uid g_seven = Some 5 \<and> is_connected client_up \<and> \<not> is_connected client_down \<and>
   main_step sample_dev g_seven (ReadOk 5 [], client_up) = (g_seven, []) \<and>
   published_on (TOPIC_PUB_UID sample_dev)
     (snd (main_loop sample_dev g_seven [(ReadRaises, client_up), (ReadOk 5 [], client_up)])) =
     [JObj [(''uid'', JStr ''5'')]] \<and>
   filter is_publish
     (snd (main_loop sample_dev g_seven [(ReadRaises, client_up), (ReadOk 5 [], client_down)])) = []"
  using main_loop_reports_changes[of g_seven 5 sample_dev "[]" client_up client_up]
        main_loop_reports_changes[of g_seven 5 sample_dev "[]" client_up client_down]
  by (simp add: g_seven_def client_up_def client_down_def str_int_5 main_step_def Let_def)

section \<open>Disconnects\<close>

text \<open>
  Claim C8. An unexpected disconnect must start the reconnect loop. \<^verbatim>\<open>main\<close> of
  water\_dispense\_with\_rfid.py builds a \<^verbatim>\<open>VERSION2\<close> client, which reports a disconnect with
  five positional arguments, and \<^verbatim>\<open>on_disconnect\<close> of that module takes four at most: the
  call raises \<^verbatim>\<open>TypeError\<close> before the body runs, so nothing is logged and no reconnect is
  attempted, with a broker that would accept the first attempt. \<^verbatim>\<open>on_disconnect\<close> of
  mqtt\_dummy\_water\_dispence.py has the five parameters: called the same way, with a broker
  that accepts the third attempt, it retries, sleeps five seconds after each failure and
  returns after the success. (\<open>dummy_on_disconnect_unexpected\<close>, \<open>dummy_on_disconnect_clean\<close>:
  that handler does what the claim says for every reason code.)
\<close>

theorem on_disconnect_refuses_version2_call:
  "on_disconnect (version2_call 128) always_up = Some (Raised TypeError, []) \<and>
   dummy_on_disconnect (version2_call 128) third_up =
     Some (Returned,
           [Log WARNING ''Disconnected unexpectedly from MQTT broker'' [],
            Log INFO ''Attempting to reconnect...'' [], Reconnect,
            Log ERROR ''Reconnect failed: {e}'' [], Sleep 5,
            Log INFO ''Attempting to reconnect...'' [], Reconnect,
            Log ERROR ''Reconnect failed: {e}'' [], Sleep 5,
            Log INFO ''Attempting to reconnect...'' [], Reconnect,
            Log INFO ''Reconnected successfully'' []])"
  by (simp add: on_disconnect_def dummy_on_disconnect_def version2_call_def MQTT_ERR_SUCCESS_def
        reconnect_loop.simps third_up_def)

end
